theory Spec2Isabelle
  imports Complex_Main
begin

section \<open>Exceptions\<close>

text \<open>
  The Python exceptions the three modules can raise, with the argument they are raised
  with: the missing key of a \<open>KeyError\<close>, the message of the others.
\<close>

datatype error =
    KeyError string
  | NotImplementedError string
  | ValueError string
  | AssertionError string
  | IndexError string
  | RuntimeError string

section \<open>objective.py: the objective curriculum and its collators\<close>

text \<open>
  \<open>curriculum.units\<close> maps the name of a unit to the unit; a unit is read both by
  attribute (\<open>.name\<close>) and by item (\<open>["mask_probability"]\<close>). \<open>curriculum.steps\<close> maps a
  training step to the name of a unit. The mask probability is a Python float that the
  module only passes on, so its type is left open.
\<close>

record 'p objective_unit =
  name :: string
  mask_probability :: 'p

record 'p curriculum =
  steps :: "int \<rightharpoonup> string"
  units :: "string \<rightharpoonup> 'p objective_unit"

text \<open>
  The tokenizer, as far as the collators read it: its mask token, or \<open>None\<close>.
\<close>

record mlm_tokenizer =
  mask_token :: "string option"

text \<open>
  \<open>DataCollatorForLanguageModeling\<close> is the dataclass of the transformers library, with
  the three fields the module sets. Its constructor stores them and then raises
  \<open>ValueError\<close> when \<open>mlm\<close> is set and the tokenizer has no mask token.
\<close>

datatype ('tok, 'p) collator =
  DataCollatorForLanguageModeling (the_tokenizer: 'tok) (the_mlm: bool) (mlm_probability: 'p)

definition DataCollatorForLanguageModeling_init ::
  "'x mlm_tokenizer_scheme \<Rightarrow> bool \<Rightarrow> 'p \<Rightarrow> error + ('x mlm_tokenizer_scheme, 'p) collator" where
  "DataCollatorForLanguageModeling_init tokenizer mlm probability =
     (if mlm \<and> mask_token tokenizer = None then
        Inl (ValueError ''This tokenizer does not have a mask token which is necessary for masked language modeling. You should pass mlm=False to train on causal language modeling instead.'')
      else Inr (DataCollatorForLanguageModeling tokenizer mlm probability))"

text \<open>
  \<open>CustomDataCollatorForWholeWordMask.__init__(self, curriculum, args, **kwargs)\<close>:
  the body is the single \<open>raise\<close>; everything after it is commented out, so the
  constructor of the base class never runs.
\<close>

definition CustomDataCollatorForWholeWordMask_init ::
  "'p curriculum \<Rightarrow> 'p objective_unit \<Rightarrow> 'tok \<Rightarrow> bool \<Rightarrow> 'p \<Rightarrow> error + ('tok, 'p) collator" where
  "CustomDataCollatorForWholeWordMask_init curriculum args tokenizer mlm probability =
     Inl (NotImplementedError ''This class is not implemented yet'')"

text \<open>\<open>d[k]\<close> on a dict: the value, or \<open>KeyError(k)\<close>.\<close>

definition getitem :: "(string \<rightharpoonup> 'v) \<Rightarrow> string \<Rightarrow> error + 'v" where
  "getitem d k = (case d k of None \<Rightarrow> Inl (KeyError k) | Some v \<Rightarrow> Inr v)"

text \<open>
  Lines 23 to 27 of \<open>load_objective_collator\<close>: the name of the active unit.
  \<open>curriculum.steps[step]\<close> is read only when \<open>step\<close> is a key, so it cannot fail;
  \<open>curriculum.units[...]\<close> can.
\<close>

definition active_unit_name :: "'p curriculum \<Rightarrow> int \<Rightarrow> error + string" where
  "active_unit_name curriculum step =
     (case steps curriculum step of
        Some key \<Rightarrow>
          (case getitem (units curriculum) key of
             Inl e \<Rightarrow> Inl e
           | Inr unit \<Rightarrow> Inr (name unit))
      | None \<Rightarrow> Inr ''mlm'')"

text \<open>
  \<open>load_objective_collator(curriculum, tokenizer, step: int = 0)\<close>. The optional
  argument is \<open>None\<close> when the caller leaves it out. The result is the list of messages
  sent to \<open>logger.info\<close> together with the returned collator or the raised exception.
  The local variable \<open>name\<close> is written \<open>name'\<close>, as \<open>name\<close> is the field of a unit.
  The keyword arguments of a call are evaluated before the call, so
  \<open>curriculum.units[name]\<close> is looked up before either constructor runs.
\<close>

definition load_objective_collator ::
  "'p curriculum \<Rightarrow> 'x mlm_tokenizer_scheme \<Rightarrow> int option \<Rightarrow>
     string list \<times> (error + ('x mlm_tokenizer_scheme, 'p) collator)" where
  "load_objective_collator curriculum tokenizer step_arg =
     (let step = (case step_arg of None \<Rightarrow> 0 | Some s \<Rightarrow> s) in
      case active_unit_name curriculum step of
        Inl e \<Rightarrow> ([], Inl e)
      | Inr name' \<Rightarrow>
          ([''Loading objective: '' @ name'],
           if name' = ''mlm'' then
             (case getitem (units curriculum) name' of
                Inl e \<Rightarrow> Inl e
              | Inr unit \<Rightarrow>
                  DataCollatorForLanguageModeling_init tokenizer True (mask_probability unit))
           else if name' = ''pos'' then
             (case getitem (units curriculum) name' of
                Inl e \<Rightarrow> Inl e
              | Inr unit \<Rightarrow>
                  CustomDataCollatorForWholeWordMask_init curriculum unit
                    tokenizer True (mask_probability unit))
           else Inl (NotImplementedError (''Objective '' @ name' @ '' is not implemented''))))"

text \<open>
  A curriculum and two tokenizers used as concrete inputs below. The curriculum schedules
  three units, each stored under its own name; \<open>tokenizer_masked\<close> has a mask token and
  \<open>tokenizer_unmasked\<close> has none.
\<close>

definition curriculum_keyed :: "real curriculum" where
  "curriculum_keyed =
     \<lparr> steps = [0 \<mapsto> ''mlm'', 100 \<mapsto> ''pos'', 200 \<mapsto> ''sop''],
       units = [''mlm'' \<mapsto> \<lparr> name = ''mlm'', mask_probability = 15 / 100 \<rparr>,
                ''pos'' \<mapsto> \<lparr> name = ''pos'', mask_probability = 1 / 4 \<rparr>,
                ''sop'' \<mapsto> \<lparr> name = ''sop'', mask_probability = 1 / 2 \<rparr>] \<rparr>"

definition tokenizer_masked :: mlm_tokenizer where
  "tokenizer_masked = \<lparr> mask_token = Some ''[MASK]'' \<rparr>"

definition tokenizer_unmasked :: mlm_tokenizer where
  "tokenizer_unmasked = \<lparr> mask_token = None \<rparr>"

section \<open>difficulty_scorer/__init__.py: the difficulty scorer factory\<close>

text \<open>
  Python objects are compared by identity in what follows, so a tokenizer and a trainer
  carry the identity of the object (\<open>id(obj)\<close>) with them. \<open>trainer.tokenizer\<close> is a fast
  tokenizer, another tokenizer, or \<open>None\<close>.
\<close>

datatype tokenizer_obj =
    PreTrainedTokenizerFast nat
  | PreTrainedTokenizer nat

record trainer_obj =
  trainer_id :: nat
  trainer_tokenizer :: "tokenizer_obj option"

text \<open>
  A scorer is an object with a class and a dictionary of attributes. The factory only
  writes a trainer or a tokenizer into it; any other value an attribute holds (\<open>None\<close>
  after construction, say) is \<open>PyNone\<close> or \<open>PyValue\<close>.
\<close>

datatype attr_value =
    TrainerRef trainer_obj
  | TokenizerRef tokenizer_obj
  | PyNone
  | PyValue string

record scorer =
  scorer_class :: string
  attrs :: "string \<rightharpoonup> attr_value"

text \<open>
  \<open>UsesTokenizers\<close> and \<open>UsesTrainer\<close> are \<open>runtime_checkable\<close> protocols with one data
  member each: \<open>isinstance\<close> against them holds exactly when the object has the attribute.
\<close>

definition isinstance_UsesTokenizers :: "scorer \<Rightarrow> bool" where
  "isinstance_UsesTokenizers obj = (attrs obj ''tokenizer'' \<noteq> None)"

definition isinstance_UsesTrainer :: "scorer \<Rightarrow> bool" where
  "isinstance_UsesTrainer obj = (attrs obj ''trainer'' \<noteq> None)"

definition isinstance_PreTrainedTokenizerFast :: "tokenizer_obj option \<Rightarrow> bool" where
  "isinstance_PreTrainedTokenizerFast t =
     (case t of Some (PreTrainedTokenizerFast i) \<Rightarrow> True | _ \<Rightarrow> False)"

definition setattr :: "scorer \<Rightarrow> string \<Rightarrow> attr_value \<Rightarrow> scorer" where
  "setattr obj a v = obj\<lparr> attrs := (attrs obj)(a \<mapsto> v) \<rparr>"

text \<open>
  \<open>get_difficulty_scorer\<close>. \<open>registry.py\<close> and the scorer classes are not part of the
  sources at hand, so the registry is a parameter: a dictionary from names to
  constructors, and a constructor applied to the keyword arguments returns a scorer or
  raises. The scorer is updated in place in the source; the model returns the updated one.
\<close>

definition get_difficulty_scorer ::
  "(string \<rightharpoonup> ('k \<Rightarrow> error + scorer)) \<Rightarrow> string \<Rightarrow> 'k \<Rightarrow> trainer_obj \<Rightarrow> error + scorer" where
  "get_difficulty_scorer DIFFICULTY_SCORER_REGISTRY difficulty_scorer_name
       difficulty_scorer_kwargs trainer =
     (case DIFFICULTY_SCORER_REGISTRY difficulty_scorer_name of
        Some constructor \<Rightarrow>
          (case constructor difficulty_scorer_kwargs of
             Inl e \<Rightarrow> Inl e
           | Inr difficulty_scorer \<Rightarrow>
               (let difficulty_scorer =
                      (if isinstance_UsesTrainer difficulty_scorer
                       then setattr difficulty_scorer ''trainer'' (TrainerRef trainer)
                       else difficulty_scorer)
                in if isinstance_UsesTokenizers difficulty_scorer then
                     (if isinstance_PreTrainedTokenizerFast (trainer_tokenizer trainer) then
                        (case trainer_tokenizer trainer of
                           Some tok \<Rightarrow>
                             Inr (setattr difficulty_scorer ''tokenizer'' (TokenizerRef tok))
                         | None \<Rightarrow> Inl (AssertionError []))
                      else Inl (AssertionError []))
                   else Inr difficulty_scorer))
      | None \<Rightarrow>
          Inl (ValueError
            (''Difficulty Scorer '' @ difficulty_scorer_name @ '' not supported.'')))"

text \<open>
  Concrete inputs: a registry with a scorer that has both attributes, one that has only
  \<open>tokenizer\<close> and one that has neither; a trainer with a fast tokenizer.
\<close>

definition scorer_ngram :: scorer where
  "scorer_ngram =
     \<lparr> scorer_class = ''NGramPerplexityScorer'',
       attrs = [''tokenizer'' \<mapsto> PyNone, ''n_gram'' \<mapsto> PyValue ''2''] \<rparr>"

definition scorer_self :: scorer where
  "scorer_self =
     \<lparr> scorer_class = ''SelfPerplexityScorer'',
       attrs = [''tokenizer'' \<mapsto> PyNone, ''trainer'' \<mapsto> PyNone] \<rparr>"

definition scorer_length :: scorer where
  "scorer_length = \<lparr> scorer_class = ''LengthScorer'', attrs = Map.empty \<rparr>"

definition registry_example :: "string \<rightharpoonup> (unit \<Rightarrow> error + scorer)" where
  "registry_example =
     [''ngram_perplexity'' \<mapsto> (\<lambda>_. Inr scorer_ngram),
      ''self_perplexity'' \<mapsto> (\<lambda>_. Inr scorer_self),
      ''length'' \<mapsto> (\<lambda>_. Inr scorer_length)]"

definition trainer_fast :: trainer_obj where
  "trainer_fast = \<lparr> trainer_id = 1, trainer_tokenizer = Some (PreTrainedTokenizerFast 2) \<rparr>"

section \<open>utils/inference.py: the perplexity of a batch\<close>

subsection \<open>The tensor operations the function calls\<close>

text \<open>
  A tensor is its shape and its elements, read by a multi-index with one entry for each
  dimension. The operations below are the ones of the torch library that
  \<open>compute_trainer_perplexity\<close> calls, each with the failure it has on a shape it does
  not accept. Moving a tensor to a device (\<open>.to(device)\<close>, \<open>.cpu()\<close>) leaves its shape
  and elements as they are and is not written.
\<close>

record 'a tensor =
  shape :: "nat list"
  elem :: "nat list \<Rightarrow> 'a"

definition bindE :: "error + 'a \<Rightarrow> ('a \<Rightarrow> error + 'b) \<Rightarrow> error + 'b" where
  "bindE m f = (case m of Inl e \<Rightarrow> Inl e | Inr x \<Rightarrow> f x)"

text \<open>\<open>t.size(d)\<close>; a negative \<open>d\<close> counts from the last dimension.\<close>

definition size_dim :: "'a tensor \<Rightarrow> int \<Rightarrow> error + nat" where
  "size_dim t d =
     (let n = int (length (shape t)); j = (if d < 0 then n + d else d)
      in if 0 \<le> j \<and> j < n then Inr (shape t ! nat j)
         else Inl (IndexError ''Dimension out of range''))"

text \<open>\<open>t.unsqueeze(d)\<close> for \<open>d \<ge> 0\<close>: a new dimension of size 1 at position \<open>d\<close>.\<close>

definition unsqueeze :: "'a tensor \<Rightarrow> nat \<Rightarrow> error + 'a tensor" where
  "unsqueeze t d =
     (if d \<le> length (shape t) then
        Inr \<lparr> shape = take d (shape t) @ [1] @ drop d (shape t),
              elem = (\<lambda>idx. elem t (take d idx @ drop (Suc d) idx)) \<rparr>
      else Inl (IndexError ''Dimension out of range''))"

text \<open>
  \<open>t.repeat(reps)\<close>: the tensor tiled \<open>reps\<close> times along each dimension. With more
  entries in \<open>reps\<close> than dimensions, dimensions of size 1 are added in front; with fewer,
  the call fails.
\<close>

definition repeat :: "'a tensor \<Rightarrow> nat list \<Rightarrow> error + 'a tensor" where
  "repeat t reps =
     (let r = length (shape t); k = length reps in
      if k < r then
        Inl (RuntimeError ''Number of dimensions of repeat dims can not be smaller than number of dimensions of tensor'')
      else
        (let s = replicate (k - r) 1 @ shape t in
         Inr \<lparr> shape = map2 (\<lambda>d n. d * n) s reps,
               elem = (\<lambda>idx. elem t (drop (k - r) (map2 (\<lambda>i d. i mod d) idx s))) \<rparr>))"

text \<open>
  \<open>torch.ones(n)\<close>, and \<open>v.diag(0)\<close> of a one-dimensional \<open>v\<close>, the only use the function
  makes of it: the square matrix with \<open>v\<close> on its diagonal and 0 elsewhere.
\<close>

definition ones :: "nat \<Rightarrow> int tensor" where
  "ones n = \<lparr> shape = [n], elem = (\<lambda>idx. 1) \<rparr>"

definition diag :: "int tensor \<Rightarrow> int tensor" where
  "diag v =
     (let n = prod_list (shape v) in
      \<lparr> shape = [n, n],
        elem = (\<lambda>idx. if idx ! 0 = idx ! 1 then elem v [idx ! 0] else 0) \<rparr>)"

text \<open>\<open>t == c\<close> and \<open>t != c\<close> against a number: a tensor of booleans of the same shape.\<close>

definition eq_scalar :: "int tensor \<Rightarrow> int \<Rightarrow> bool tensor" where
  "eq_scalar t c = \<lparr> shape = shape t, elem = (\<lambda>idx. elem t idx = c) \<rparr>"

definition ne_scalar :: "int tensor \<Rightarrow> int \<Rightarrow> bool tensor" where
  "ne_scalar t c = \<lparr> shape = shape t, elem = (\<lambda>idx. elem t idx \<noteq> c) \<rparr>"

text \<open>
  \<open>t.masked_fill(m, v)\<close>: \<open>v\<close> where the mask \<open>m\<close> is true, the element of \<open>t\<close> elsewhere.
  The mask is broadcast to the shape of \<open>t\<close>: its dimensions are aligned with the last
  ones of \<open>t\<close>, and a dimension of size 1 is read at index 0.
\<close>

definition broadcastable :: "nat list \<Rightarrow> nat list \<Rightarrow> bool" where
  "broadcastable ms s =
     (length ms \<le> length s \<and>
      list_all2 (\<lambda>m d. m = d \<or> m = 1) ms (drop (length s - length ms) s))"

definition masked_fill :: "int tensor \<Rightarrow> bool tensor \<Rightarrow> int \<Rightarrow> error + int tensor" where
  "masked_fill t m v =
     (if broadcastable (shape m) (shape t) then
        Inr \<lparr> shape = shape t,
              elem = (\<lambda>idx.
                if elem m (map2 (\<lambda>d i. if d = 1 then 0 else i) (shape m)
                             (drop (length (shape t) - length (shape m)) idx))
                then v else elem t idx) \<rparr>
      else Inl (RuntimeError ''The size of the mask must match the size of the tensor''))"

text \<open>
  The multi-index of the element at offset \<open>k\<close> of a tensor stored row by row, and
  \<open>t.view(-1, c)\<close> and \<open>t.view(a, b)\<close>: the same elements in the same order under a new
  shape. \<open>view(-1, c)\<close> infers the first dimension, which it cannot do when \<open>c\<close> is 0 or
  does not divide the number of elements; \<open>view(a, b)\<close> needs \<open>a * b\<close> elements.
\<close>

fun unravel :: "nat list \<Rightarrow> nat \<Rightarrow> nat list" where
  "unravel [] k = []"
| "unravel (d # ds) k = (k div prod_list ds) # unravel ds (k mod prod_list ds)"

definition view_rows :: "'a tensor \<Rightarrow> nat \<Rightarrow> error + 'a tensor" where
  "view_rows t c =
     (let n = prod_list (shape t) in
      if c = 0 \<or> n mod c \<noteq> 0 then
        Inl (RuntimeError ''shape is invalid for input size'')
      else
        Inr \<lparr> shape = [n div c, c],
              elem = (\<lambda>idx. elem t (unravel (shape t) (idx ! 0 * c + idx ! 1))) \<rparr>)"

definition view2 :: "'a tensor \<Rightarrow> nat \<Rightarrow> nat \<Rightarrow> error + 'a tensor" where
  "view2 t a b =
     (if prod_list (shape t) = a * b then
        Inr \<lparr> shape = [a, b],
              elem = (\<lambda>idx. elem t (unravel (shape t) (idx ! 0 * b + idx ! 1))) \<rparr>
      else Inl (RuntimeError ''shape is invalid for input size''))"

text \<open>
  The floating-point kernels: the sum and the mean of the numbers along the last
  dimension, and the exponential. The function only composes them, so they are
  parameters, and no property of floating-point arithmetic is assumed.
\<close>

record 'f float_ops =
  sum_f :: "'f list \<Rightarrow> 'f"
  mean_f :: "'f list \<Rightarrow> 'f"
  exp_f :: "'f \<Rightarrow> 'f"

text \<open>
  \<open>t.sum(dim=-1)\<close> and \<open>t.mean(dim=-1)\<close> reduce the last dimension away (a tensor
  without dimensions is its own sum and mean); \<open>torch.exp\<close> works element by element;
  \<open>tolist\<close> of a one-dimensional tensor is the list of its elements. The function calls
  \<open>tolist\<close> on the mean of a \<open>view(a, b)\<close>, which has one dimension.
\<close>

definition reduce_last :: "('f list \<Rightarrow> 'f) \<Rightarrow> 'f tensor \<Rightarrow> 'f tensor" where
  "reduce_last f t =
     (if shape t = [] then t
      else \<lparr> shape = butlast (shape t),
             elem = (\<lambda>idx. f (map (\<lambda>j. elem t (idx @ [j])) [0..<last (shape t)])) \<rparr>)"

definition sum_dim :: "'f float_ops \<Rightarrow> 'f tensor \<Rightarrow> 'f tensor" where
  "sum_dim T t = reduce_last (sum_f T) t"

definition mean_dim :: "'f float_ops \<Rightarrow> 'f tensor \<Rightarrow> 'f tensor" where
  "mean_dim T t = reduce_last (mean_f T) t"

definition exp_tensor :: "'f float_ops \<Rightarrow> 'f tensor \<Rightarrow> 'f tensor" where
  "exp_tensor T t = \<lparr> shape = shape t, elem = (\<lambda>idx. exp_f T (elem t idx)) \<rparr>"

definition tolist :: "'f tensor \<Rightarrow> 'f list" where
  "tolist t = map (\<lambda>i. elem t [i]) [0..<prod_list (shape t)]"

subsection \<open>The collaborators\<close>

text \<open>
  The tokenizer gives the id of its mask token, or \<open>None\<close>. The trainer gives the model,
  whose outputs are a tuple with the hidden states first, and the units of its objective
  curriculum; \<open>compute_loss\<close> of a unit is called with the hidden states and the labels
  (\<open>override_lables\<close>), an empty input dictionary and \<open>reduction = none\<close>.
\<close>

record pretrained_tokenizer =
  mask_token_id :: "int option"

record ('h, 'f) task_unit =
  compute_loss :: "'h \<Rightarrow> int tensor \<Rightarrow> 'f tensor"

record ('h, 'o, 'f) custom_trainer =
  model :: "int tensor \<Rightarrow> 'h \<times> 'o"
  objective_curriculum_units :: "string \<rightharpoonup> ('h, 'f) task_unit"

subsection \<open>compute_trainer_perplexity\<close>

text \<open>
  Lines 45 to 74: the masked inputs and the labels, both of shape
  \<open>(batch_size * seq_len, seq_len)\<close>, with \<open>batch_size\<close> and \<open>seq_len\<close>. The local
  variable \<open>mask\<close> is written \<open>mask'\<close>.
\<close>

definition masked_input_and_labels ::
  "(string \<rightharpoonup> int tensor) \<Rightarrow> int \<Rightarrow> error + (nat \<times> nat \<times> int tensor \<times> int tensor)" where
  "masked_input_and_labels batch mask_idx =
     bindE (getitem batch ''input_ids'') (\<lambda>input_ids.
     bindE (size_dim input_ids 0) (\<lambda>batch_size.
     bindE (size_dim input_ids 1) (\<lambda>seq_len.
     bindE (unsqueeze input_ids 1) (\<lambda>input_ids.
     bindE (repeat input_ids [1, seq_len, 1]) (\<lambda>repeat_ids.
     bindE (size_dim input_ids (- 1)) (\<lambda>n.
     bindE (repeat (diag (ones n)) [batch_size, 1, 1]) (\<lambda>mask'.
     bindE (masked_fill repeat_ids (eq_scalar mask' 1) mask_idx) (\<lambda>masked_input.
     bindE (masked_fill repeat_ids (ne_scalar masked_input mask_idx) (- 100)) (\<lambda>labels.
     bindE (getitem batch ''special_tokens_mask'') (\<lambda>stm.
     bindE (unsqueeze stm 1) (\<lambda>special_tokens_mask.
     bindE (masked_fill labels (eq_scalar special_tokens_mask 1) (- 100)) (\<lambda>labels.
     bindE (view_rows masked_input seq_len) (\<lambda>masked_input.
     bindE (view_rows labels seq_len) (\<lambda>labels.
     Inr (batch_size, seq_len, masked_input, labels)))))))))))))))"

text \<open>
  The whole function: the assertion on the mask token, the masked inputs and labels, the
  model and the loss of the \<open>mlm\<close> unit, then lines 94 to 108.
\<close>

definition compute_trainer_perplexity ::
  "'f float_ops \<Rightarrow> (string \<rightharpoonup> int tensor) \<Rightarrow> pretrained_tokenizer \<Rightarrow>
     ('h, 'o, 'f) custom_trainer \<Rightarrow> error + 'f list" where
  "compute_trainer_perplexity T batch tokenizer trainer =
     (case mask_token_id tokenizer of
        None \<Rightarrow> Inl (AssertionError ''The tokenizer must have a mask token and a pad token'')
      | Some mask_idx \<Rightarrow>
          bindE (masked_input_and_labels batch mask_idx)
            (\<lambda>(batch_size, seq_len, masked_input, labels).
          (let base_model_outputs = model trainer masked_input;
               base_model_hidden_states = fst base_model_outputs
           in
          bindE (getitem (objective_curriculum_units trainer) ''mlm'') (\<lambda>mlm_unit.
          (let loss = compute_loss mlm_unit base_model_hidden_states labels;
               loss = sum_dim T loss
           in
          bindE (view2 loss batch_size seq_len) (\<lambda>loss.
          (let mean_loss = mean_dim T loss;
               batch_perplexity = exp_tensor T mean_loss;
               batch_perplexity = tolist batch_perplexity
           in Inr batch_perplexity)))))))"

text \<open>
  Concrete inputs. Tensors are given by their rows. \<open>float_real\<close> reads the
  floating-point kernels as exact arithmetic on the reals; it is applied to lists that
  are not empty only. \<open>trainer_example\<close> has a
  model that returns its input as hidden states and an \<open>mlm\<close> unit whose loss has the
  shape of the labels and is 0 at an ignored label and 1 at any other, as a loss without
  reduction is 0 where the label is the ignore index. The mask token of
  \<open>tokenizer_example\<close> has id 7. \<open>batch_plain\<close> is one example of two ordinary tokens;
  in \<open>batch_mask_token\<close> the second token is the mask token itself and is not marked
  special; in \<open>batch_special\<close> both tokens are marked special.
\<close>

definition matrix :: "'a list list \<Rightarrow> nat \<Rightarrow> 'a tensor" where
  "matrix rows cols =
     \<lparr> shape = [length rows, cols], elem = (\<lambda>idx. rows ! (idx ! 0) ! (idx ! 1)) \<rparr>"

definition float_real :: "real float_ops" where
  "float_real =
     \<lparr> sum_f = sum_list, mean_f = (\<lambda>xs. sum_list xs / real (length xs)), exp_f = exp \<rparr>"

definition loss_example :: "(int tensor, real) task_unit" where
  "loss_example =
     \<lparr> compute_loss = (\<lambda>hidden labels.
         \<lparr> shape = shape labels,
           elem = (\<lambda>idx. if elem labels idx = - 100 then 0 else 1) \<rparr>) \<rparr>"

definition trainer_example :: "(int tensor, unit, real) custom_trainer" where
  "trainer_example =
     \<lparr> model = (\<lambda>input_ids. (input_ids, ())),
       objective_curriculum_units = [''mlm'' \<mapsto> loss_example] \<rparr>"

definition tokenizer_example :: pretrained_tokenizer where
  "tokenizer_example = \<lparr> mask_token_id = Some 7 \<rparr>"

definition batch_plain :: "string \<rightharpoonup> int tensor" where
  "batch_plain =
     [''input_ids'' \<mapsto> matrix [[5, 9]] 2, ''special_tokens_mask'' \<mapsto> matrix [[0, 0]] 2]"

definition batch_mask_token :: "string \<rightharpoonup> int tensor" where
  "batch_mask_token =
     [''input_ids'' \<mapsto> matrix [[5, 7]] 2, ''special_tokens_mask'' \<mapsto> matrix [[0, 0]] 2]"

definition batch_special :: "string \<rightharpoonup> int tensor" where
  "batch_special =
     [''input_ids'' \<mapsto> matrix [[1, 2]] 2, ''special_tokens_mask'' \<mapsto> matrix [[1, 1]] 2]"

section \<open>Properties of objective.py\<close>

text \<open>
  The name resolved at a scheduled step is the \<open>name\<close> field of the unit that the
  schedule points to.
\<close>

lemma active_unit_name_scheduled:
  assumes "steps c s = Some key" and "units c key = Some u"
  shows "active_unit_name c s = Inr (name u)"
  using assms by (simp add: active_unit_name_def getitem_def)

lemma load_objective_collator_log:
  assumes "active_unit_name c s = Inr n"
  shows "fst (load_objective_collator c tok (Some s)) = [''Loading objective: '' @ n]"
  using assms by (simp add: load_objective_collator_def)

text \<open>
  A name resolved from the schedule, other than the fallback, is the name of a unit of
  the curriculum; with every unit stored under its own name it is a key of \<open>units\<close>.
\<close>

lemma resolved_name_is_key:
  assumes res: "active_unit_name c s = Inr n" and n: "n \<noteq> ''mlm''"
    and names: "\<And>k u. units c k = Some u \<Longrightarrow> name u = k"
  shows "\<exists>u. units c n = Some u"
proof (cases "steps c s")
  case None
  with res n show ?thesis by (simp add: active_unit_name_def)
next
  case (Some key)
  show ?thesis
  proof (cases "units c key")
    case None
    with Some res show ?thesis by (simp add: active_unit_name_def getitem_def)
  next
    case (Some u)
    with \<open>steps c s = Some key\<close> res have "name u = n"
      by (simp add: active_unit_name_def getitem_def)
    moreover from Some have "name u = key" by (rule names)
    ultimately show ?thesis using Some by simp
  qed
qed

lemma curriculum_keyed_scheduled:
  "steps curriculum_keyed s' = Some k \<Longrightarrow> units curriculum_keyed k \<noteq> None"
  by (auto simp add: curriculum_keyed_def split: if_splits)

lemma curriculum_keyed_names:
  "units curriculum_keyed k = Some u \<Longrightarrow> name u = k"
  by (auto simp add: curriculum_keyed_def split: if_splits)

text \<open>
  C1. For every training step \<open>s\<close> that is a key of the schedule, the active unit name
  that \<open>load_objective_collator\<close> resolves (and logs) is the unit name recorded in the
  schedule at \<open>s\<close>, the string \<open>curriculum.steps[s]\<close>. The curriculum is as its data
  model has it: every scheduled name is a key of \<open>units\<close>, and \<open>units\<close> maps the name of
  a unit to the unit, so every unit is stored under its own name.
\<close>

theorem active_unit_name_is_schedule_entry:
  assumes sched: "steps c s = Some key"
    and keys: "\<And>s' k. steps c s' = Some k \<Longrightarrow> units c k \<noteq> None"
    and names: "\<And>k u. units c k = Some u \<Longrightarrow> name u = k"
  shows "active_unit_name c s = Inr key \<and>
         fst (load_objective_collator c tok (Some s)) = [''Loading objective: '' @ key]"
proof -
  from keys [OF sched] obtain u where u: "units c key = Some u" by auto
  from names [OF u] have "name u = key" .
  with active_unit_name_scheduled [OF sched u] have res: "active_unit_name c s = Inr key"
    by simp
  from res load_objective_collator_log [OF res] show ?thesis by simp
qed

theorem active_unit_name_is_schedule_entry_witness:
  "steps curriculum_keyed 100 = Some ''pos'' \<and>
   active_unit_name curriculum_keyed 100 = Inr ''pos'' \<and>
   fst (load_objective_collator curriculum_keyed tokenizer_masked (Some 100)) =
     [''Loading objective: pos'']"
proof -
  have sched: "steps curriculum_keyed 100 = Some ''pos''"
    by (simp add: curriculum_keyed_def)
  from active_unit_name_is_schedule_entry
    [where tok = tokenizer_masked, OF sched curriculum_keyed_scheduled curriculum_keyed_names]
  show ?thesis using sched by simp
qed

text \<open>
  C2. For every step \<open>s\<close> that is not a key of the schedule, the active unit name that
  \<open>load_objective_collator\<close> resolves (and logs) is the literal \<open>mlm\<close>.
\<close>

theorem active_unit_name_fallback:
  assumes "steps c s = None"
  shows "active_unit_name c s = Inr ''mlm'' \<and>
         fst (load_objective_collator c tok (Some s)) = [''Loading objective: mlm'']"
  using assms by (simp add: active_unit_name_def load_objective_collator_def)

theorem active_unit_name_fallback_witness:
  "steps curriculum_keyed 50 = None \<and>
   active_unit_name curriculum_keyed 50 = Inr ''mlm'' \<and>
   fst (load_objective_collator curriculum_keyed tokenizer_masked (Some 50)) =
     [''Loading objective: mlm'']"
  using active_unit_name_fallback [of curriculum_keyed 50 tokenizer_masked]
  by (simp add: curriculum_keyed_def)

text \<open>
  C6. When the resolved active unit name is neither \<open>mlm\<close> nor \<open>pos\<close>,
  \<open>load_objective_collator\<close> raises, for every such name: the exception is the
  \<open>NotImplementedError\<close> with the message \<open>Objective <name> is not implemented\<close>, and no
  collator is returned.
\<close>

theorem unsupported_objective_raises:
  assumes "active_unit_name c s = Inr n" and "n \<noteq> ''mlm''" and "n \<noteq> ''pos''"
  shows "snd (load_objective_collator c tok (Some s)) =
           Inl (NotImplementedError (''Objective '' @ n @ '' is not implemented''))"
  using assms by (simp add: load_objective_collator_def)

theorem unsupported_objective_raises_witness:
  "active_unit_name curriculum_keyed 200 = Inr ''sop'' \<and>
   snd (load_objective_collator curriculum_keyed tokenizer_masked (Some 200)) =
     Inl (NotImplementedError ''Objective sop is not implemented'')"
  using unsupported_objective_raises [of curriculum_keyed 200 "''sop''" tokenizer_masked]
  by (simp add: curriculum_keyed_def active_unit_name_def getitem_def)

text \<open>
  C7. Whenever \<open>load_objective_collator\<close> resolves the active unit name \<open>pos\<close>,
  constructing the whole-word-masking collator raises the \<open>NotImplementedError\<close> of its
  \<open>__init__\<close>, whatever the tokenizer: no collator is returned and no batch is processed.
  The curriculum is as its data model has it, every unit stored under its own name.
\<close>

theorem pos_collator_not_implemented:
  assumes res: "active_unit_name c s = Inr ''pos''"
    and names: "\<And>k u. units c k = Some u \<Longrightarrow> name u = k"
  shows "snd (load_objective_collator c tok (Some s)) =
           Inl (NotImplementedError ''This class is not implemented yet'')"
proof -
  from resolved_name_is_key [OF res _ names] obtain u where "units c ''pos'' = Some u"
    by auto
  with res show ?thesis
    by (simp add: load_objective_collator_def getitem_def
        CustomDataCollatorForWholeWordMask_init_def)
qed

theorem pos_collator_not_implemented_witness:
  "active_unit_name curriculum_keyed 100 = Inr ''pos'' \<and>
   snd (load_objective_collator curriculum_keyed tokenizer_masked (Some 100)) =
     Inl (NotImplementedError ''This class is not implemented yet'') \<and>
   snd (load_objective_collator curriculum_keyed tokenizer_unmasked (Some 100)) =
     Inl (NotImplementedError ''This class is not implemented yet'')"
proof -
  have res: "active_unit_name curriculum_keyed 100 = Inr ''pos''"
    by (simp add: curriculum_keyed_def active_unit_name_def getitem_def)
  from pos_collator_not_implemented [OF res curriculum_keyed_names, of tokenizer_masked]
       pos_collator_not_implemented [OF res curriculum_keyed_names, of tokenizer_unmasked]
  show ?thesis using res by simp
qed

text \<open>
  C8. When the resolved active unit name is \<open>mlm\<close>, the collator that
  \<open>load_objective_collator\<close> returns is a \<open>DataCollatorForLanguageModeling\<close> whose mask
  probability is the \<open>mask_probability\<close> of the unit stored under \<open>mlm\<close> in
  \<open>curriculum.units\<close>. It is returned for every tokenizer that has a mask token; for a
  tokenizer without one the constructor raises its \<open>ValueError\<close> and nothing is returned.
\<close>

theorem mlm_collator_mask_probability:
  assumes "active_unit_name c s = Inr ''mlm''" and "units c ''mlm'' = Some u"
  shows "snd (load_objective_collator c tok (Some s)) =
           (if mask_token tok = None then
              Inl (ValueError ''This tokenizer does not have a mask token which is necessary for masked language modeling. You should pass mlm=False to train on causal language modeling instead.'')
            else Inr (DataCollatorForLanguageModeling tok True (mask_probability u))) \<and>
         (\<forall>col. snd (load_objective_collator c tok (Some s)) = Inr col \<longrightarrow>
                  mlm_probability col = mask_probability u \<and> the_mlm col \<and> the_tokenizer col = tok)"
  using assms
  by (auto simp add: load_objective_collator_def getitem_def
      DataCollatorForLanguageModeling_init_def)

theorem mlm_collator_mask_probability_witness:
  "active_unit_name curriculum_keyed 50 = Inr ''mlm'' \<and>
   units curriculum_keyed ''mlm'' = Some \<lparr> name = ''mlm'', mask_probability = 15 / 100 \<rparr> \<and>
   snd (load_objective_collator curriculum_keyed tokenizer_masked (Some 50)) =
     Inr (DataCollatorForLanguageModeling tokenizer_masked True (15 / 100)) \<and>
   snd (load_objective_collator curriculum_keyed tokenizer_unmasked (Some 50)) =
     Inl (ValueError ''This tokenizer does not have a mask token which is necessary for masked language modeling. You should pass mlm=False to train on causal language modeling instead.'')"
proof -
  have res: "active_unit_name curriculum_keyed 50 = Inr ''mlm''"
    and unit: "units curriculum_keyed ''mlm'' =
                 Some \<lparr> name = ''mlm'', mask_probability = 15 / 100 \<rparr>"
    by (simp_all add: curriculum_keyed_def active_unit_name_def)
  have tok: "mask_token tokenizer_masked \<noteq> None" and no_tok: "mask_token tokenizer_unmasked = None"
    by (simp_all add: tokenizer_masked_def tokenizer_unmasked_def)
  from mlm_collator_mask_probability [OF res unit, of tokenizer_masked] tok
  have "snd (load_objective_collator curriculum_keyed tokenizer_masked (Some 50)) =
          Inr (DataCollatorForLanguageModeling tokenizer_masked True (15 / 100))"
    by simp
  moreover from mlm_collator_mask_probability [OF res unit, of tokenizer_unmasked] no_tok
  have "snd (load_objective_collator curriculum_keyed tokenizer_unmasked (Some 50)) =
          Inl (ValueError ''This tokenizer does not have a mask token which is necessary for masked language modeling. You should pass mlm=False to train on causal language modeling instead.'')"
    by simp
  ultimately show ?thesis using res unit by simp
qed

text \<open>
  C10. The \<open>step\<close> parameter of \<open>load_objective_collator\<close> defaults to 0: a call
  without it does what the call with step 0 does. With 0 a key of the schedule the unit
  scheduled there is used (nothing is logged when its key is missing from \<open>units\<close>, as
  the lookup raises first); otherwise the \<open>mlm\<close> fallback applies.
\<close>

theorem step_defaults_to_zero:
  "load_objective_collator c tok None = load_objective_collator c tok (Some 0) \<and>
   fst (load_objective_collator c tok None) =
     (case steps c 0 of
        None \<Rightarrow> [''Loading objective: mlm'']
      | Some key \<Rightarrow>
          (case units c key of
             None \<Rightarrow> []
           | Some u \<Rightarrow> [''Loading objective: '' @ name u]))"
  by (simp add: load_objective_collator_def active_unit_name_def getitem_def
      split: option.splits)

section \<open>Properties of the difficulty scorer factory\<close>

lemma setattr_attrs: "attrs (setattr obj a v) b = (if b = a then Some v else attrs obj b)"
  by (simp add: setattr_def)

text \<open>
  C9. For every scorer name in the registry, \<open>get_difficulty_scorer\<close> returns the
  constructed scorer with: its \<open>tokenizer\<close> attribute the very object \<open>trainer.tokenizer\<close>
  if the instance declares a tokenizer dependency, and no such attribute otherwise; its
  \<open>trainer\<close> attribute the given trainer if the instance declares a trainer dependency
  (and no such attribute otherwise); every other attribute and the class as constructed.
  An exception of the constructor is passed on. The trainer is one the function is
  called with: its tokenizer is a \<open>PreTrainedTokenizerFast\<close>, which is checked before the
  trainer is built.
\<close>

theorem scorer_dependencies_injected:
  assumes reg: "DIFFICULTY_SCORER_REGISTRY difficulty_scorer_name = Some constructor"
    and fast: "isinstance_PreTrainedTokenizerFast (trainer_tokenizer trainer)"
  shows "(\<forall>e. constructor difficulty_scorer_kwargs = Inl e \<longrightarrow>
            get_difficulty_scorer DIFFICULTY_SCORER_REGISTRY difficulty_scorer_name
              difficulty_scorer_kwargs trainer = Inl e) \<and>
         (\<forall>sc. constructor difficulty_scorer_kwargs = Inr sc \<longrightarrow>
            (\<exists>r. get_difficulty_scorer DIFFICULTY_SCORER_REGISTRY difficulty_scorer_name
                    difficulty_scorer_kwargs trainer = Inr r \<and>
                 scorer_class r = scorer_class sc \<and>
                 attrs r ''tokenizer'' =
                   (if isinstance_UsesTokenizers sc
                    then map_option TokenizerRef (trainer_tokenizer trainer) else None) \<and>
                 attrs r ''trainer'' =
                   (if isinstance_UsesTrainer sc then Some (TrainerRef trainer) else None) \<and>
                 (\<forall>a. a \<noteq> ''tokenizer'' \<and> a \<noteq> ''trainer'' \<longrightarrow> attrs r a = attrs sc a)))"
proof (intro conjI allI impI)
  fix e assume "constructor difficulty_scorer_kwargs = Inl e"
  with reg show "get_difficulty_scorer DIFFICULTY_SCORER_REGISTRY difficulty_scorer_name
                   difficulty_scorer_kwargs trainer = Inl e"
    by (simp add: get_difficulty_scorer_def)
next
  fix sc assume con: "constructor difficulty_scorer_kwargs = Inr sc"
  from fast obtain tk where tk: "trainer_tokenizer trainer = Some tk"
    by (auto simp add: isinstance_PreTrainedTokenizerFast_def split: option.splits)
  show "\<exists>r. get_difficulty_scorer DIFFICULTY_SCORER_REGISTRY difficulty_scorer_name
                difficulty_scorer_kwargs trainer = Inr r \<and>
             scorer_class r = scorer_class sc \<and>
             attrs r ''tokenizer'' =
               (if isinstance_UsesTokenizers sc
                then map_option TokenizerRef (trainer_tokenizer trainer) else None) \<and>
             attrs r ''trainer'' =
               (if isinstance_UsesTrainer sc then Some (TrainerRef trainer) else None) \<and>
             (\<forall>a. a \<noteq> ''tokenizer'' \<and> a \<noteq> ''trainer'' \<longrightarrow> attrs r a = attrs sc a)"
  proof (cases "isinstance_UsesTokenizers sc")
    case True
    then have "attrs sc ''tokenizer'' \<noteq> None"
      by (simp add: isinstance_UsesTokenizers_def)
    with reg con tk fast True show ?thesis
      by (simp add: get_difficulty_scorer_def Let_def setattr_def
          isinstance_UsesTokenizers_def isinstance_UsesTrainer_def)
  next
    case False
    then have "attrs sc ''tokenizer'' = None"
      by (simp add: isinstance_UsesTokenizers_def)
    with reg con False show ?thesis
      by (simp add: get_difficulty_scorer_def Let_def setattr_def
          isinstance_UsesTokenizers_def isinstance_UsesTrainer_def)
  qed
qed

text \<open>
  Building \<open>self_perplexity\<close>, which has both attributes, and \<open>length\<close>, which has neither,
  with a trainer whose tokenizer is the fast tokenizer with identity 2.
\<close>

theorem scorer_dependencies_injected_witness:
  "(\<exists>r. get_difficulty_scorer registry_example ''self_perplexity'' () trainer_fast = Inr r \<and>
        scorer_class r = ''SelfPerplexityScorer'' \<and>
        attrs r ''tokenizer'' = Some (TokenizerRef (PreTrainedTokenizerFast 2)) \<and>
        attrs r ''trainer'' = Some (TrainerRef trainer_fast) \<and>
        attrs r ''n_gram'' = None) \<and>
   (\<exists>r. get_difficulty_scorer registry_example ''length'' () trainer_fast = Inr r \<and>
        scorer_class r = ''LengthScorer'' \<and>
        attrs r ''tokenizer'' = None \<and>
        attrs r ''trainer'' = None)"
proof -
  have fast: "isinstance_PreTrainedTokenizerFast (trainer_tokenizer trainer_fast)"
    and tk: "trainer_tokenizer trainer_fast = Some (PreTrainedTokenizerFast 2)"
    by (simp_all add: trainer_fast_def isinstance_PreTrainedTokenizerFast_def)
  have reg1: "registry_example ''self_perplexity'' = Some (\<lambda>_. Inr scorer_self)"
    and reg2: "registry_example ''length'' = Some (\<lambda>_. Inr scorer_length)"
    by (simp_all add: registry_example_def)
  have self: "isinstance_UsesTokenizers scorer_self" "isinstance_UsesTrainer scorer_self"
    "scorer_class scorer_self = ''SelfPerplexityScorer''" "attrs scorer_self ''n_gram'' = None"
    by (simp_all add: isinstance_UsesTokenizers_def isinstance_UsesTrainer_def scorer_self_def)
  have len: "\<not> isinstance_UsesTokenizers scorer_length" "\<not> isinstance_UsesTrainer scorer_length"
    "scorer_class scorer_length = ''LengthScorer''"
    by (simp_all add: isinstance_UsesTokenizers_def isinstance_UsesTrainer_def scorer_length_def)
  note inj1 = scorer_dependencies_injected [where DIFFICULTY_SCORER_REGISTRY = registry_example
      and difficulty_scorer_name = "''self_perplexity''"
      and constructor = "\<lambda>_. Inr scorer_self"
      and difficulty_scorer_kwargs = "()" and trainer = trainer_fast, OF reg1 fast]
  note inj2 = scorer_dependencies_injected [where DIFFICULTY_SCORER_REGISTRY = registry_example
      and difficulty_scorer_name = "''length''"
      and constructor = "\<lambda>_. Inr scorer_length"
      and difficulty_scorer_kwargs = "()" and trainer = trainer_fast, OF reg2 fast]
  from inj1 have "\<exists>r. get_difficulty_scorer registry_example ''self_perplexity'' () trainer_fast = Inr r \<and>
       scorer_class r = scorer_class scorer_self \<and>
       attrs r ''tokenizer'' =
         (if isinstance_UsesTokenizers scorer_self
          then map_option TokenizerRef (trainer_tokenizer trainer_fast) else None) \<and>
       attrs r ''trainer'' =
         (if isinstance_UsesTrainer scorer_self then Some (TrainerRef trainer_fast) else None) \<and>
       (\<forall>a. a \<noteq> ''tokenizer'' \<and> a \<noteq> ''trainer'' \<longrightarrow> attrs r a = attrs scorer_self a)"
    by (elim conjE allE [of _ scorer_self] impE) (rule refl, assumption)
  then obtain r where
    r1: "get_difficulty_scorer registry_example ''self_perplexity'' () trainer_fast = Inr r"
    and r2: "scorer_class r = scorer_class scorer_self"
    and r3: "attrs r ''tokenizer'' =
          (if isinstance_UsesTokenizers scorer_self
           then map_option TokenizerRef (trainer_tokenizer trainer_fast) else None)"
    and r4: "attrs r ''trainer'' =
          (if isinstance_UsesTrainer scorer_self then Some (TrainerRef trainer_fast) else None)"
    and r5: "\<forall>a. a \<noteq> ''tokenizer'' \<and> a \<noteq> ''trainer'' \<longrightarrow> attrs r a = attrs scorer_self a"
    by (elim exE conjE)
  from r5 have "attrs r ''n_gram'' = attrs scorer_self ''n_gram''" by simp
  with self(4) have "attrs r ''n_gram'' = None" by simp
  moreover note r1
  moreover from r3 self(1) tk
  have "attrs r ''tokenizer'' = Some (TokenizerRef (PreTrainedTokenizerFast 2))"
    by simp
  moreover from r4 self(2) have "attrs r ''trainer'' = Some (TrainerRef trainer_fast)"
    by simp
  moreover from r2 self(3) have "scorer_class r = ''SelfPerplexityScorer''" by simp
  ultimately have first:
    "\<exists>r. get_difficulty_scorer registry_example ''self_perplexity'' () trainer_fast = Inr r \<and>
        scorer_class r = ''SelfPerplexityScorer'' \<and>
        attrs r ''tokenizer'' = Some (TokenizerRef (PreTrainedTokenizerFast 2)) \<and>
        attrs r ''trainer'' = Some (TrainerRef trainer_fast) \<and>
        attrs r ''n_gram'' = None"
    by (intro exI [of _ r] conjI)
  from inj2 have "\<exists>r. get_difficulty_scorer registry_example ''length'' () trainer_fast = Inr r \<and>
       scorer_class r = scorer_class scorer_length \<and>
       attrs r ''tokenizer'' =
         (if isinstance_UsesTokenizers scorer_length
          then map_option TokenizerRef (trainer_tokenizer trainer_fast) else None) \<and>
       attrs r ''trainer'' =
         (if isinstance_UsesTrainer scorer_length then Some (TrainerRef trainer_fast) else None) \<and>
       (\<forall>a. a \<noteq> ''tokenizer'' \<and> a \<noteq> ''trainer'' \<longrightarrow> attrs r a = attrs scorer_length a)"
    by (elim conjE allE [of _ scorer_length] impE) (rule refl, assumption)
  then obtain q where
    q1: "get_difficulty_scorer registry_example ''length'' () trainer_fast = Inr q"
    and q2: "scorer_class q = scorer_class scorer_length"
    and q3: "attrs q ''tokenizer'' =
          (if isinstance_UsesTokenizers scorer_length
           then map_option TokenizerRef (trainer_tokenizer trainer_fast) else None)"
    and q4: "attrs q ''trainer'' =
          (if isinstance_UsesTrainer scorer_length then Some (TrainerRef trainer_fast) else None)"
    by (elim exE conjE)
  note q1
  moreover from q2 len(3) have "scorer_class q = ''LengthScorer''" by simp
  moreover from q3 len(1) have "attrs q ''tokenizer'' = None" by simp
  moreover from q4 len(2) have "attrs q ''trainer'' = None" by simp
  ultimately have second:
    "\<exists>r. get_difficulty_scorer registry_example ''length'' () trainer_fast = Inr r \<and>
        scorer_class r = ''LengthScorer'' \<and>
        attrs r ''tokenizer'' = None \<and>
        attrs r ''trainer'' = None"
    by (intro exI [of _ q] conjI)
  from first second show ?thesis by (rule conjI)
qed

section \<open>Properties of compute_trainer_perplexity\<close>

subsection \<open>The tensor operations on the shapes of the function\<close>

lemma bindE_Inr: "bindE (Inr x) f = f x"
  by (simp add: bindE_def)

lemma rows_lt:
  fixes L :: nat
  assumes "i < L" "j < L"
  shows "i * L + j < L * L"
proof -
  have "i * L + j < i * L + L" using assms by simp
  also have "\<dots> = (Suc i) * L" by simp
  also have "\<dots> \<le> L * L" using assms by (simp add: Suc_leI mult_le_mono1 del: mult_Suc)
  finally show ?thesis .
qed

lemma div_rows:
  fixes L :: nat
  assumes "i < L" "j < L"
  shows "((b * L + i) * L + j) div (L * L) = b" and "((b * L + i) * L + j) mod (L * L) = i * L + j"
proof -
  have lt: "i * L + j < L * L" using assms by (rule rows_lt)
  then have nz: "L * L \<noteq> 0" by linarith
  have eq: "(b * L + i) * L + j = (i * L + j) + b * (L * L)"
    by (simp add: algebra_simps)
  have "((i * L + j) + b * (L * L)) div (L * L) = b + (i * L + j) div (L * L)"
    using nz by (rule div_mult_self1)
  with lt show "((b * L + i) * L + j) div (L * L) = b"
    unfolding eq by (simp only: div_less add_0_right)
  have "((i * L + j) + b * (L * L)) mod (L * L) = (i * L + j) mod (L * L)"
    by (rule mod_mult_self1)
  with lt show "((b * L + i) * L + j) mod (L * L) = i * L + j"
    unfolding eq by (simp only: mod_less)
qed

lemma div_row:
  fixes L :: nat
  assumes "j < L"
  shows "(i * L + j) div L = i" and "(i * L + j) mod L = j"
  using assms by simp_all

lemma unravel3:
  assumes "i < L" "j < L"
  shows "unravel [B, L, L] ((b * L + i) * L + j) = [b, i, j]"
  using assms by (simp add: div_rows div_row)

lemma size_dim_0: "shape t = a # r \<Longrightarrow> size_dim t 0 = Inr a"
  by (simp add: size_dim_def)

lemma size_dim_1: "shape t = a # b # r \<Longrightarrow> size_dim t 1 = Inr b"
  by (simp add: size_dim_def)

lemma size_dim_last: "shape t = [a, b, c] \<Longrightarrow> size_dim t (- 1) = Inr c"
  by (simp add: size_dim_def)

lemma unsqueeze_1:
  assumes "shape t = [a, c]"
  shows "\<exists>u. unsqueeze t 1 = Inr u \<and> shape u = [a, 1, c] \<and>
             (\<forall>p q r. elem u [p, q, r] = elem t [p, r])"
  using assms by (simp add: unsqueeze_def)

lemma repeat_3:
  assumes "shape t = [a, b, c]"
  shows "\<exists>u. repeat t [x, y, z] = Inr u \<and> shape u = [a * x, b * y, c * z] \<and>
             (\<forall>p q r. elem u [p, q, r] = elem t [p mod a, q mod b, r mod c])"
  using assms by (simp add: repeat_def)

lemma repeat_2:
  assumes "shape t = [b, c]"
  shows "\<exists>u. repeat t [x, y, z] = Inr u \<and> shape u = [x, b * y, c * z] \<and>
             (\<forall>p q r. elem u [p, q, r] = elem t [q mod b, r mod c])"
  using assms by (simp add: repeat_def)

lemma diag_ones:
  "shape (diag (ones n)) = [n, n] \<and> (\<forall>i j. elem (diag (ones n)) [i, j] = (if i = j then 1 else 0))"
  by (simp add: diag_def ones_def)

lemma masked_fill_same:
  assumes "shape t = [a, b, c]" "shape k = [a, b, c]"
  shows "\<exists>u. masked_fill t k v = Inr u \<and> shape u = [a, b, c] \<and>
             (\<forall>p q r. p < a \<and> q < b \<and> r < c \<longrightarrow>
                elem u [p, q, r] = (if elem k [p, q, r] then v else elem t [p, q, r]))"
  using assms by (auto simp add: masked_fill_def broadcastable_def)

lemma masked_fill_row:
  assumes "shape t = [a, b, c]" "shape k = [a, 1, c]"
  shows "\<exists>u. masked_fill t k v = Inr u \<and> shape u = [a, b, c] \<and>
             (\<forall>p q r. p < a \<and> q < b \<and> r < c \<longrightarrow>
                elem u [p, q, r] = (if elem k [p, 0, r] then v else elem t [p, q, r]))"
  using assms by (auto simp add: masked_fill_def broadcastable_def)

lemma view_rows_3:
  assumes "shape t = [a, c, c]" "0 < c"
  shows "\<exists>u. view_rows t c = Inr u \<and> shape u = [a * c, c] \<and>
             (\<forall>p i j. i < c \<and> j < c \<longrightarrow> elem u [p * c + i, j] = elem t [p, i, j])"
  using assms by (simp add: view_rows_def unravel3 del: unravel.simps)


lemma masked_input_and_labels_wf:
  assumes ids: "batch ''input_ids'' = Some ids" and sids: "shape ids = [B, L]"
    and stm: "batch ''special_tokens_mask'' = Some stm" and sstm: "shape stm = [B, L]"
    and L: "0 < L"
  shows "\<exists>mi lab. masked_input_and_labels batch m = Inr (B, L, mi, lab) \<and>
           shape mi = [B * L, L] \<and> shape lab = [B * L, L] \<and>
           (\<forall>b i j. b < B \<and> i < L \<and> j < L \<longrightarrow>
              elem mi [b * L + i, j] = (if i = j then m else elem ids [b, j]) \<and>
              elem lab [b * L + i, j] =
                (if (i = j \<or> elem ids [b, j] = m) \<and> elem stm [b, j] \<noteq> 1
                 then elem ids [b, j] else - 100))"
proof -
  from unsqueeze_1 [OF sids] obtain u where
    u: "unsqueeze ids 1 = Inr u" "shape u = [B, 1, L]"
       "\<And>p q r. elem u [p, q, r] = elem ids [p, r]"
    by blast
  from repeat_3 [OF u(2), of 1 L 1] obtain rep where
    rep: "repeat u [1, L, 1] = Inr rep" "shape rep = [B, L, L]"
         "\<And>p q r. elem rep [p, q, r] = elem u [p mod B, q mod 1, r mod L]"
    by auto
  from repeat_2 [of "diag (ones L)" L L B 1 1] diag_ones [of L] obtain mk where
    mk: "repeat (diag (ones L)) [B, 1, 1] = Inr mk" "shape mk = [B, L, L]"
        "\<And>p q r. elem mk [p, q, r] = elem (diag (ones L)) [q mod L, r mod L]"
    by auto
  have smk: "shape (eq_scalar mk 1) = [B, L, L]"
    using mk(2) by (simp add: eq_scalar_def)
  from masked_fill_same [OF rep(2) smk, of m] obtain mi3 where
    mi3: "masked_fill rep (eq_scalar mk 1) m = Inr mi3" "shape mi3 = [B, L, L]"
         "\<And>p q r. p < B \<and> q < L \<and> r < L \<Longrightarrow>
            elem mi3 [p, q, r] = (if elem (eq_scalar mk 1) [p, q, r] then m else elem rep [p, q, r])"
    by blast
  have sne: "shape (ne_scalar mi3 m) = [B, L, L]"
    using mi3(2) by (simp add: ne_scalar_def)
  from masked_fill_same [OF rep(2) sne, of "- 100"] obtain lab1 where
    lab1: "masked_fill rep (ne_scalar mi3 m) (- 100) = Inr lab1" "shape lab1 = [B, L, L]"
         "\<And>p q r. p < B \<and> q < L \<and> r < L \<Longrightarrow>
            elem lab1 [p, q, r] = (if elem (ne_scalar mi3 m) [p, q, r] then - 100 else elem rep [p, q, r])"
    by blast
  from unsqueeze_1 [OF sstm] obtain sp where
    sp: "unsqueeze stm 1 = Inr sp" "shape sp = [B, 1, L]"
       "\<And>p q r. elem sp [p, q, r] = elem stm [p, r]"
    by blast
  have ssp: "shape (eq_scalar sp 1) = [B, 1, L]"
    using sp(2) by (simp add: eq_scalar_def)
  from masked_fill_row [OF lab1(2) ssp, of "- 100"] obtain lab2 where
    lab2: "masked_fill lab1 (eq_scalar sp 1) (- 100) = Inr lab2" "shape lab2 = [B, L, L]"
         "\<And>p q r. p < B \<and> q < L \<and> r < L \<Longrightarrow>
            elem lab2 [p, q, r] = (if elem (eq_scalar sp 1) [p, 0, r] then - 100 else elem lab1 [p, q, r])"
    by blast
  from view_rows_3 [OF mi3(2) L] obtain mi where
    mi: "view_rows mi3 L = Inr mi" "shape mi = [B * L, L]"
        "\<And>p i j. i < L \<and> j < L \<Longrightarrow> elem mi [p * L + i, j] = elem mi3 [p, i, j]"
    by blast
  from view_rows_3 [OF lab2(2) L] obtain lab where
    lab: "view_rows lab2 L = Inr lab" "shape lab = [B * L, L]"
        "\<And>p i j. i < L \<and> j < L \<Longrightarrow> elem lab [p * L + i, j] = elem lab2 [p, i, j]"
    by blast
  have gi: "getitem batch ''input_ids'' = Inr ids"
    and gs: "getitem batch ''special_tokens_mask'' = Inr stm"
    by (simp_all add: getitem_def ids stm)
  have run: "masked_input_and_labels batch m = Inr (B, L, mi, lab)"
    by (simp only: masked_input_and_labels_def gi gs bindE_Inr
        size_dim_0 [OF sids] size_dim_1 [OF sids] u(1) size_dim_last [OF u(2)]
        rep(1) mk(1) mi3(1) lab1(1) sp(1) lab2(1) mi(1) lab(1))
  have cells: "elem mi [b * L + i, j] = (if i = j then m else elem ids [b, j]) \<and>
               elem lab [b * L + i, j] =
                 (if (i = j \<or> elem ids [b, j] = m) \<and> elem stm [b, j] \<noteq> 1
                  then elem ids [b, j] else - 100)"
    if lt: "b < B \<and> i < L \<and> j < L" for b i j
  proof -
    from lt have i: "i < L \<and> j < L" by simp
    have dg: "elem mk [b, i, j] = (if i = j then 1 else 0)"
      using lt diag_ones [of L] by (simp add: mk(3))
    have rp: "elem rep [b, i, j] = elem ids [b, j]"
      using lt by (simp add: rep(3) u(3))
    have m3: "elem mi3 [b, i, j] = (if i = j then m else elem ids [b, j])"
      using lt rp dg by (auto simp add: mi3(3) eq_scalar_def)
    have l1: "elem lab1 [b, i, j] = (if i = j \<or> elem ids [b, j] = m then elem ids [b, j] else - 100)"
      using lt rp m3 by (auto simp add: lab1(3) ne_scalar_def)
    have l2: "elem lab2 [b, i, j] =
                (if (i = j \<or> elem ids [b, j] = m) \<and> elem stm [b, j] \<noteq> 1
                 then elem ids [b, j] else - 100)"
      using lt l1 by (auto simp add: lab2(3) eq_scalar_def sp(3))
    show ?thesis
      by (simp only: mi(3) [OF i] lab(3) [OF i] m3 l2)
  qed
  from run mi(2) lab(2) cells show ?thesis by blast
qed


lemma compute_trainer_perplexity_run:
  assumes tok: "mask_token_id tokenizer = Some m"
    and mil: "masked_input_and_labels batch m = Inr (B, L, mi, lab)"
    and mlm: "objective_curriculum_units trainer ''mlm'' = Some u"
    and loss: "shape (compute_loss u (fst (model trainer mi)) lab) = [B * L, L]"
  shows "compute_trainer_perplexity T batch tokenizer trainer =
           Inr (map (\<lambda>b. exp_f T (mean_f T (map (\<lambda>i.
                  sum_f T (map (\<lambda>j. elem (compute_loss u (fst (model trainer mi)) lab) [b * L + i, j])
                    [0..<L])) [0..<L]))) [0..<B])"
  using assms
  by (simp add: compute_trainer_perplexity_def bindE_def getitem_def sum_dim_def mean_dim_def
      reduce_last_def view2_def exp_tensor_def tolist_def Let_def)

subsection \<open>The concrete inputs\<close>

lemma batch_shapes:
  "batch_plain ''input_ids'' = Some (matrix [[5, 9]] 2)"
  "batch_plain ''special_tokens_mask'' = Some (matrix [[0, 0]] 2)"
  "batch_mask_token ''input_ids'' = Some (matrix [[5, 7]] 2)"
  "batch_mask_token ''special_tokens_mask'' = Some (matrix [[0, 0]] 2)"
  "batch_special ''input_ids'' = Some (matrix [[1, 2]] 2)"
  "batch_special ''special_tokens_mask'' = Some (matrix [[1, 1]] 2)"
  by (simp_all add: batch_plain_def batch_mask_token_def batch_special_def)

lemma matrix_shape: "shape (matrix [r] c) = [1, c]"
  by (simp add: matrix_def)

lemma example_facts:
  "mask_token_id tokenizer_example = Some 7"
  "objective_curriculum_units trainer_example ''mlm'' = Some loss_example"
  "shape (compute_loss loss_example h labels) = shape labels"
  "elem (compute_loss loss_example h labels) idx = (if elem labels idx = - 100 then 0 else 1)"
  by (simp_all add: tokenizer_example_def trainer_example_def loss_example_def)

subsection \<open>The labels\<close>

text \<open>
  When no token of the batch that is not marked special is the mask token itself, the
  labels of variant \<open>i\<close> of example \<open>b\<close> are the original token at position \<open>i\<close>, unless
  that position is marked special, and the ignore index everywhere else.
\<close>

lemma labels_without_mask_token:
  assumes ids: "batch ''input_ids'' = Some ids" and sids: "shape ids = [B, L]"
    and stm: "batch ''special_tokens_mask'' = Some stm" and sstm: "shape stm = [B, L]"
    and L: "0 < L"
    and absent: "\<And>b j. b < B \<Longrightarrow> j < L \<Longrightarrow> elem ids [b, j] \<noteq> m \<or> elem stm [b, j] = 1"
  shows "\<exists>mi lab. masked_input_and_labels batch m = Inr (B, L, mi, lab) \<and>
           (\<forall>b i j. b < B \<and> i < L \<and> j < L \<longrightarrow>
              elem lab [b * L + i, j] =
                (if i = j \<and> elem stm [b, j] \<noteq> 1 then elem ids [b, j] else - 100))"
proof -
  from masked_input_and_labels_wf [OF ids sids stm sstm L, of m]
  obtain mi lab where run: "masked_input_and_labels batch m = Inr (B, L, mi, lab)"
    and cells: "\<forall>b i j. b < B \<and> i < L \<and> j < L \<longrightarrow>
              elem mi [b * L + i, j] = (if i = j then m else elem ids [b, j]) \<and>
              elem lab [b * L + i, j] =
                (if (i = j \<or> elem ids [b, j] = m) \<and> elem stm [b, j] \<noteq> 1
                 then elem ids [b, j] else - 100)"
    by blast
  have "elem lab [b * L + i, j] =
          (if i = j \<and> elem stm [b, j] \<noteq> 1 then elem ids [b, j] else - 100)"
    if lt: "b < B \<and> i < L \<and> j < L" for b i j
  proof -
    from lt cells have "elem lab [b * L + i, j] =
                (if (i = j \<or> elem ids [b, j] = m) \<and> elem stm [b, j] \<noteq> 1
                 then elem ids [b, j] else - 100)"
      by blast
    with lt absent [of b j] show ?thesis by auto
  qed
  with run show ?thesis by blast
qed

text \<open>
  C3. In \<open>compute_trainer_perplexity\<close> the labels of variant \<open>i\<close> of an example are meant
  to be the original token at position \<open>i\<close> and the ignore index (-100) everywhere else,
  with every position marked special ignored in all variants, so that at most one position
  of a variant is scored. The theorem evaluates the function on \<open>batch_mask_token\<close>, one
  example \<open>[5, 7]\<close> with no special token and 7 the id of the mask token: in variant 0 the
  masked input is \<open>[7, 7]\<close> and the labels are \<open>[5, 7]\<close>, so position 1 is scored as well.
\<close>

theorem labels_at_mask_token_input:
  "\<exists>mi lab. masked_input_and_labels batch_mask_token 7 = Inr (1, 2, mi, lab) \<and>
     elem mi [0, 0] = 7 \<and> elem mi [0, 1] = 7 \<and>
     elem lab [0, 0] = 5 \<and> elem lab [0, 1] = 7"
proof -
  let ?ids = "matrix [[5, 7 :: int]] 2" and ?stm = "matrix [[0, 0 :: int]] 2"
  from masked_input_and_labels_wf [OF batch_shapes(3) matrix_shape batch_shapes(4) matrix_shape zero_less_numeral, of 7]
  obtain mi lab where run: "masked_input_and_labels batch_mask_token 7 = Inr (1, 2, mi, lab)"
    and cells: "\<forall>b i j. b < 1 \<and> i < 2 \<and> j < 2 \<longrightarrow>
              elem mi [b * 2 + i, j] = (if i = j then 7 else elem ?ids [b, j]) \<and>
              elem lab [b * 2 + i, j] =
                (if (i = j \<or> elem ?ids [b, j] = 7) \<and> elem ?stm [b, j] \<noteq> 1
                 then elem ?ids [b, j] else - 100)"
    by blast
  from cells [rule_format, of 0 0 0] cells [rule_format, of 0 0 1]
  have "elem mi [0, 0] = 7 \<and> elem mi [0, 1] = 7 \<and> elem lab [0, 0] = 5 \<and> elem lab [0, 1] = 7"
    by (simp add: matrix_def)
  with run show ?thesis by blast
qed

subsection \<open>The returned perplexities\<close>

text \<open>
  C4. \<open>compute_trainer_perplexity\<close> returns one number for each example of the batch, a
  list of length \<open>batch_size\<close>, and the number of example \<open>b\<close> is the exponential of the
  mean over the \<open>L\<close> variants of the example of the summed losses of the variant, variant
  \<open>i\<close> of example \<open>b\<close> being row \<open>b * L + i\<close> of the loss. The batch holds \<open>input_ids\<close> and
  \<open>special_tokens_mask\<close> of shape \<open>(batch_size, L)\<close> with \<open>L > 0\<close>, the tokenizer has a
  mask token, the curriculum has the \<open>mlm\<close> unit, and the loss without reduction has the
  shape of the labels.
\<close>

theorem perplexity_per_example:
  assumes tok: "mask_token_id tokenizer = Some m"
    and ids: "batch ''input_ids'' = Some ids" and sids: "shape ids = [B, L]"
    and stm: "batch ''special_tokens_mask'' = Some stm" and sstm: "shape stm = [B, L]"
    and L: "0 < L"
    and mlm: "objective_curriculum_units trainer ''mlm'' = Some u"
    and loss: "\<And>h labels. shape (compute_loss u h labels) = shape labels"
  shows "\<exists>mi lab.
           masked_input_and_labels batch m = Inr (B, L, mi, lab) \<and>
           compute_trainer_perplexity T batch tokenizer trainer =
             Inr (map (\<lambda>b. exp_f T (mean_f T (map (\<lambda>i.
                    sum_f T (map (\<lambda>j. elem (compute_loss u (fst (model trainer mi)) lab) [b * L + i, j])
                      [0..<L])) [0..<L]))) [0..<B]) \<and>
           (\<exists>ps. compute_trainer_perplexity T batch tokenizer trainer = Inr ps \<and> length ps = B)"
proof -
  from masked_input_and_labels_wf [OF ids sids stm sstm L, of m]
  obtain mi lab where run: "masked_input_and_labels batch m = Inr (B, L, mi, lab)"
    and slab: "shape lab = [B * L, L]"
    by blast
  have sl: "shape (compute_loss u (fst (model trainer mi)) lab) = [B * L, L]"
    by (simp only: loss slab)
  note res = compute_trainer_perplexity_run [OF tok run mlm sl, of T]
  have "\<exists>ps. compute_trainer_perplexity T batch tokenizer trainer = Inr ps \<and> length ps = B"
    unfolding res by simp
  with run res show ?thesis by blast
qed

text \<open>
  On \<open>batch_plain\<close> each of the two variants has one scored label, so each summed loss is
  1, their mean is 1, and the perplexity of the example is \<open>exp 1\<close>.
\<close>

theorem perplexity_per_example_witness:
  "compute_trainer_perplexity float_real batch_plain tokenizer_example trainer_example =
     Inr [exp 1]"
proof -
  let ?ids = "matrix [[5, 9 :: int]] 2" and ?stm = "matrix [[0, 0 :: int]] 2"
  from perplexity_per_example [OF example_facts(1) batch_shapes(1) matrix_shape batch_shapes(2)
      matrix_shape zero_less_numeral example_facts(2) example_facts(3), of float_real]
  obtain mi lab where run: "masked_input_and_labels batch_plain 7 = Inr (1, 2, mi, lab)"
    and res: "compute_trainer_perplexity float_real batch_plain tokenizer_example trainer_example =
      Inr (map (\<lambda>b. exp_f float_real (mean_f float_real (map (\<lambda>i.
             sum_f float_real (map (\<lambda>j. elem (compute_loss loss_example
                 (fst (model trainer_example mi)) lab) [b * 2 + i, j]) [0..<2])) [0..<2]))) [0..<1])"
    by blast
  from masked_input_and_labels_wf [OF batch_shapes(1) matrix_shape batch_shapes(2) matrix_shape
      zero_less_numeral, of 7]
  obtain mi' lab' where run': "masked_input_and_labels batch_plain 7 = Inr (1, 2, mi', lab')"
    and cells: "\<forall>b i j. b < 1 \<and> i < 2 \<and> j < 2 \<longrightarrow>
              elem mi' [b * 2 + i, j] = (if i = j then 7 else elem ?ids [b, j]) \<and>
              elem lab' [b * 2 + i, j] =
                (if (i = j \<or> elem ?ids [b, j] = 7) \<and> elem ?stm [b, j] \<noteq> 1
                 then elem ?ids [b, j] else - 100)"
    by blast
  from run run' have same: "lab' = lab" by simp
  from cells [rule_format, of 0 0 0] cells [rule_format, of 0 0 1]
       cells [rule_format, of 0 1 0] cells [rule_format, of 0 1 1]
  have labs: "elem lab [0, 0] = 5" "elem lab [0, 1] = - 100"
             "elem lab [1, 0] = - 100" "elem lab [1, 1] = 9"
    unfolding same by (simp_all add: matrix_def)
  have upt2: "[0..<2] = [0, 1]" and upt1: "[0..<1] = [0]"
    by (simp_all add: numeral_2_eq_2)
  show ?thesis
    unfolding res using labs by (simp add: upt2 upt1 example_facts(4) float_real_def)
qed

text \<open>
  C5 (as amended). For a batch example all of whose tokens are marked special, every
  label of every variant is the ignore index, and the function does not detect it: it
  returns as for any other batch, and the value of that example is computed as any other,
  the exponential of the mean over \<open>L\<close> of the summed losses that \<open>compute_loss\<close> gives
  for its rows of ignored labels.
\<close>

theorem all_special_example_not_detected:
  assumes tok: "mask_token_id tokenizer = Some m"
    and ids: "batch ''input_ids'' = Some ids" and sids: "shape ids = [B, L]"
    and stm: "batch ''special_tokens_mask'' = Some stm" and sstm: "shape stm = [B, L]"
    and L: "0 < L"
    and mlm: "objective_curriculum_units trainer ''mlm'' = Some u"
    and loss: "\<And>h labels. shape (compute_loss u h labels) = shape labels"
    and b: "b < B"
    and special: "\<And>j. j < L \<Longrightarrow> elem stm [b, j] = 1"
  shows "\<exists>mi lab ps.
           masked_input_and_labels batch m = Inr (B, L, mi, lab) \<and>
           (\<forall>i j. i < L \<and> j < L \<longrightarrow> elem lab [b * L + i, j] = - 100) \<and>
           compute_trainer_perplexity T batch tokenizer trainer = Inr ps \<and>
           length ps = B \<and>
           ps ! b = exp_f T (mean_f T (map (\<lambda>i.
                      sum_f T (map (\<lambda>j. elem (compute_loss u (fst (model trainer mi)) lab) [b * L + i, j])
                        [0..<L])) [0..<L]))"
proof -
  from masked_input_and_labels_wf [OF ids sids stm sstm L, of m]
  obtain mi lab where run: "masked_input_and_labels batch m = Inr (B, L, mi, lab)"
    and slab: "shape lab = [B * L, L]"
    and cells: "\<forall>b i j. b < B \<and> i < L \<and> j < L \<longrightarrow>
              elem mi [b * L + i, j] = (if i = j then m else elem ids [b, j]) \<and>
              elem lab [b * L + i, j] =
                (if (i = j \<or> elem ids [b, j] = m) \<and> elem stm [b, j] \<noteq> 1
                 then elem ids [b, j] else - 100)"
    by blast
  have ignored: "\<forall>i j. i < L \<and> j < L \<longrightarrow> elem lab [b * L + i, j] = - 100"
  proof (intro allI impI)
    fix i j assume ij: "i < L \<and> j < L"
    with b cells have "elem lab [b * L + i, j] =
                (if (i = j \<or> elem ids [b, j] = m) \<and> elem stm [b, j] \<noteq> 1
                 then elem ids [b, j] else - 100)"
      by blast
    with ij special [of j] show "elem lab [b * L + i, j] = - 100" by simp
  qed
  have sl: "shape (compute_loss u (fst (model trainer mi)) lab) = [B * L, L]"
    by (simp only: loss slab)
  note res = compute_trainer_perplexity_run [OF tok run mlm sl, of T]
  let ?ps = "map (\<lambda>b. exp_f T (mean_f T (map (\<lambda>i.
                  sum_f T (map (\<lambda>j. elem (compute_loss u (fst (model trainer mi)) lab) [b * L + i, j])
                    [0..<L])) [0..<L]))) [0..<B]"
  have len: "length ?ps = B" by simp
  have nth: "?ps ! b = exp_f T (mean_f T (map (\<lambda>i.
                      sum_f T (map (\<lambda>j. elem (compute_loss u (fst (model trainer mi)) lab) [b * L + i, j])
                        [0..<L])) [0..<L]))"
    using b by simp
  from run ignored res len nth show ?thesis by blast
qed

theorem all_special_example_not_detected_witness:
  "\<exists>ps. compute_trainer_perplexity float_real batch_special tokenizer_example trainer_example = Inr ps \<and>
        length ps = 1"
proof -
  have special: "\<And>j. j < 2 \<Longrightarrow> elem (matrix [[1, 1 :: int]] 2) [0, j] = 1"
    by (auto simp add: matrix_def less_2_cases_iff)
  from all_special_example_not_detected [OF example_facts(1) batch_shapes(5) matrix_shape batch_shapes(6) matrix_shape
      zero_less_numeral example_facts(2) example_facts(3) zero_less_one special, of float_real]
  show ?thesis by blast
qed

text \<open>
  On \<open>batch_special\<close>, with the loss 0 at every ignored label and exact arithmetic, the
  function returns the perplexity 1 for the example: no exception and no marker value.
\<close>

theorem all_special_example_perplexity_one:
  "compute_trainer_perplexity float_real batch_special tokenizer_example trainer_example = Inr [1]"
proof -
  let ?ids = "matrix [[1, 2 :: int]] 2" and ?stm = "matrix [[1, 1 :: int]] 2"
  from masked_input_and_labels_wf [OF batch_shapes(5) matrix_shape batch_shapes(6) matrix_shape
      zero_less_numeral, of 7]
  obtain mi lab where run: "masked_input_and_labels batch_special 7 = Inr (1, 2, mi, lab)"
    and slab: "shape lab = [1 * 2, 2]"
    and cells: "\<forall>b i j. b < 1 \<and> i < 2 \<and> j < 2 \<longrightarrow>
              elem mi [b * 2 + i, j] = (if i = j then 7 else elem ?ids [b, j]) \<and>
              elem lab [b * 2 + i, j] =
                (if (i = j \<or> elem ?ids [b, j] = 7) \<and> elem ?stm [b, j] \<noteq> 1
                 then elem ?ids [b, j] else - 100)"
    by blast
  from cells [rule_format, of 0 0 0] cells [rule_format, of 0 0 1]
       cells [rule_format, of 0 1 0] cells [rule_format, of 0 1 1]
  have labs: "elem lab [0, 0] = - 100" "elem lab [0, 1] = - 100"
             "elem lab [1, 0] = - 100" "elem lab [1, 1] = - 100"
    by (simp_all add: matrix_def)
  have sl: "shape (compute_loss loss_example (fst (model trainer_example mi)) lab) = [1 * 2, 2]"
    by (simp only: example_facts(3) slab)
  have upt2: "[0..<2] = [0, 1]" and upt1: "[0..<1] = [0]"
    by (simp_all add: numeral_2_eq_2)
  show ?thesis
    unfolding compute_trainer_perplexity_run [OF example_facts(1) run example_facts(2) sl, of float_real]
    using labs by (simp add: upt2 upt1 example_facts(4) float_real_def)
qed

end
